theory Spec2Isabelle
  imports Complex_Main
begin

section \<open>Entities\<close>

text \<open>
  The quote dispatch and selection engine of the parameterization API: the webhook
  quoter (\<^verbatim>\<open>WebhookQuoter\<close>), the circuit breaker configuration provider backed by S3
  (\<^verbatim>\<open>S3CircuitBreakerConfigurationProvider\<close>) and the best quote reduction of the quote
  handler (\<^verbatim>\<open>getBestQuote\<close>).

  Numbers that the code only compares or copies (chain ids, HTTP statuses, timeouts in
  milliseconds, timestamps) are integers. Token amounts are \<^verbatim>\<open>BigNumber\<close>s, hence
  unbounded integers. A promise that rejects, or a call that throws, is the left
  injection of a sum.
\<close>

datatype TradeType = EXACT_INPUT | EXACT_OUTPUT

record QuoteRequest =
  req_requestId :: string
  req_swapper :: string
  req_tokenInChainId :: int
  req_type :: TradeType

record QuoteResponse =
  requestId :: string
  swapper :: string
  amountIn :: int
  amountOut :: int

datatype failure =
    AxiosError "string option"
  | OtherError string

section \<open>The circuit breaker configuration provider (S3)\<close>

text \<open>
  A configuration record as it travels through JSON. \<^verbatim>\<open>putConfigurations\<close> writes the
  properties \<^verbatim>\<open>name\<close>, \<^verbatim>\<open>fadeRate\<close> and \<^verbatim>\<open>enabled\<close>; the quoter reads the property
  \<^verbatim>\<open>hash\<close>. A property that an object does not carry reads as \<^verbatim>\<open>undefined\<close>, which is
  \<open>None\<close> here. The fade rate is a JavaScript number; the code only copies it and
  compares it with the literal \<^verbatim>\<open>0.4\<close>, and on the values of doubles that comparison
  agrees with the order of the rationals, so the rate is a rational.
\<close>

record CircuitBreakerConfiguration =
  cb_name :: string
  cb_hash :: "string option"
  fadeRate :: rat
  enabled :: bool

text \<open>
  The body of the S3 object: the JSON text of an array of configuration records (what
  \<^verbatim>\<open>JSON.stringify(config)\<close> writes and \<^verbatim>\<open>JSON.parse\<close> reads back), or a text that
  \<^verbatim>\<open>JSON.parse\<close> refuses. A JSON text of another shape lies outside the type that
  \<^verbatim>\<open>fetchConfigurations\<close> casts the parsed value to.
\<close>

datatype S3Body = ConfigJson "CircuitBreakerConfiguration list" | NotJson string

type_synonym S3 = "string \<times> string \<Rightarrow> S3Body option"

text \<open>How the \<^verbatim>\<open>GetObjectCommand\<close> of \<^verbatim>\<open>fetchConfigurations\<close> goes.\<close>

datatype GetObjectOutcome =
    SendRejects failure
  | BodyUndefined
  | TransformRejects failure
  | BodyText S3Body

record S3CircuitBreakerConfigurationProvider =
  bucket :: string
  key :: string
  fillers :: "CircuitBreakerConfiguration list"
  lastUpdatedTimestamp :: int

definition UPDATE_PERIOD_MS :: int where
  "UPDATE_PERIOD_MS = 5 * 60000"

definition FILL_RATE_THRESHOLD :: rat where
  "FILL_RATE_THRESHOLD = 4 / 10"

text \<open>
  \<^verbatim>\<open>fetchConfigurations\<close>: the send, the check that the body is defined, the read of the
  body and the parse can each throw; \<^verbatim>\<open>this.fillers\<close> is assigned after all four.
\<close>

definition fetchConfigurations ::
  "GetObjectOutcome \<Rightarrow> S3CircuitBreakerConfigurationProvider
     \<Rightarrow> (failure + unit) \<times> S3CircuitBreakerConfigurationProvider" where
  "fetchConfigurations s3Res this =
     (case s3Res of
        SendRejects e \<Rightarrow> (Inl e, this)
      | BodyUndefined \<Rightarrow> (Inl (OtherError ''s3Res.Body is undefined''), this)
      | TransformRejects e \<Rightarrow> (Inl e, this)
      | BodyText (NotJson t) \<Rightarrow> (Inl (OtherError ''SyntaxError''), this)
      | BodyText (ConfigJson parsed) \<Rightarrow> (Inr (), this\<lparr>fillers := parsed\<rparr>))"

text \<open>
  \<^verbatim>\<open>getConfigurations\<close>: \<open>now\<close> is what \<^verbatim>\<open>Date.now()\<close> gives in the condition, \<open>now'\<close>
  what it gives after the fetch.
\<close>

definition getConfigurations ::
  "int \<Rightarrow> int \<Rightarrow> GetObjectOutcome \<Rightarrow> S3CircuitBreakerConfigurationProvider
     \<Rightarrow> (failure + CircuitBreakerConfiguration list) \<times> S3CircuitBreakerConfigurationProvider" where
  "getConfigurations now now' s3Res this =
     (if length (fillers this) = 0 \<or> now - lastUpdatedTimestamp this > UPDATE_PERIOD_MS
      then (case fetchConfigurations s3Res this of
              (Inl e, this') \<Rightarrow> (Inl e, this')
            | (Inr u, this') \<Rightarrow>
                (Inr (fillers this'), this'\<lparr>lastUpdatedTimestamp := now'\<rparr>))
      else (Inr (fillers this), this))"

text \<open>
  \<^verbatim>\<open>putConfigurations\<close>: the loop pushes one record per entry of the map, in the map's
  iteration order; the \<^verbatim>\<open>PutObjectCommand\<close> then stores the array under the provider's
  bucket and key, unless the send rejects (\<open>putRejects\<close>).
\<close>

definition pushConfiguration ::
  "CircuitBreakerConfiguration list \<Rightarrow> string \<times> rat \<Rightarrow> CircuitBreakerConfiguration list" where
  "pushConfiguration config entry =
     (case entry of (filler, rate) \<Rightarrow>
        config @ [\<lparr>cb_name = filler, cb_hash = None, fadeRate = rate,
                   enabled = (rate < FILL_RATE_THRESHOLD)\<rparr>])"

definition buildConfigurations :: "(string \<times> rat) list \<Rightarrow> CircuitBreakerConfiguration list" where
  "buildConfigurations fillRates = foldl pushConfiguration [] fillRates"

definition putConfigurations ::
  "failure option \<Rightarrow> S3CircuitBreakerConfigurationProvider \<Rightarrow> S3 \<Rightarrow> (string \<times> rat) list
     \<Rightarrow> (failure + unit) \<times> S3" where
  "putConfigurations putRejects this s3 fillRates =
     (let config = buildConfigurations fillRates in
      case putRejects of
        Some e \<Rightarrow> (Inl e, s3)
      | None \<Rightarrow> (Inr (), s3((bucket this, key this) \<mapsto> ConfigJson config)))"

section \<open>Best quote selection (handler.ts)\<close>

text \<open>
  \<^verbatim>\<open>Promise.all\<close> over an array of promises: the array of their values when all of them
  resolve, a rejection when one of them rejects. Which rejection it is when several
  promises reject depends on the order in which they settle; here it is the one that
  stands first in the array.
\<close>

fun Promise_all :: "(failure + 'a) list \<Rightarrow> failure + 'a list" where
  "Promise_all [] = Inr []"
| "Promise_all (Inl e # ps) = Inl e"
| "Promise_all (Inr v # ps) =
     (case Promise_all ps of Inl e \<Rightarrow> Inl e | Inr vs \<Rightarrow> Inr (v # vs))"

text \<open>
  The callback of \<^verbatim>\<open>responses.reduce(..., null)\<close>: the accumulator is replaced when it
  is still \<^verbatim>\<open>null\<close> or when the quote at hand has a greater \<^verbatim>\<open>amountOut\<close>.
\<close>

definition bestQuoteStep :: "QuoteResponse option \<Rightarrow> QuoteResponse \<Rightarrow> QuoteResponse option" where
  "bestQuoteStep bestQuote quote =
     (case bestQuote of
        None \<Rightarrow> Some quote
      | Some b \<Rightarrow> if amountOut quote > amountOut b then Some quote else Some b)"

definition reduceBestQuote :: "QuoteResponse list \<Rightarrow> QuoteResponse option" where
  "reduceBestQuote responses = foldl bestQuoteStep None responses"

text \<open>
  \<^verbatim>\<open>getBestQuote(quoters, quoteRequest)\<close>: every quoter is asked, the answers are awaited
  together, and the answers are reduced. A quoter is the function from the request to
  the settlement of the promise its \<^verbatim>\<open>quote\<close> method returns.
\<close>

definition getBestQuote ::
  "(QuoteRequest \<Rightarrow> failure + QuoteResponse) list \<Rightarrow> QuoteRequest \<Rightarrow> failure + QuoteResponse option" where
  "getBestQuote quoters quoteRequest =
     (case Promise_all (map (\<lambda>q. q quoteRequest) quoters) of
        Inl e \<Rightarrow> Inl e
      | Inr responses \<Rightarrow> Inr (reduceBestQuote responses))"

section \<open>The webhook quoter\<close>

record WebhookOverrides =
  timeout :: int

record WebhookConfiguration =
  name :: string
  endpoint :: string
  hash :: string
  headers :: "(string \<times> string) list option"
  overrides :: "WebhookOverrides option"
  chainIds :: "int list option"

definition WEBHOOK_TIMEOUT_MS :: int where
  "WEBHOOK_TIMEOUT_MS = 500"

subsection \<open>Eligible endpoints\<close>

text \<open>
  \<^verbatim>\<open>new Map(config.map((c) => [c.hash, c]))\<close>: the entries are set one after the other, so
  of two records with one hash the later one stays.
\<close>

definition fillerToConfigMap ::
  "CircuitBreakerConfiguration list \<Rightarrow> (string option \<rightharpoonup> CircuitBreakerConfiguration)" where
  "fillerToConfigMap config = foldl (\<lambda>m c. m(cb_hash c \<mapsto> c)) Map.empty config"

text \<open>The condition of the \<^verbatim>\<open>forEach\<close> callback.\<close>

definition endpointEnabled ::
  "string set \<Rightarrow> (string option \<rightharpoonup> CircuitBreakerConfiguration) \<Rightarrow> WebhookConfiguration \<Rightarrow> bool" where
  "endpointEnabled ALLOW_LIST m e =
     (hash e \<in> ALLOW_LIST
      \<or> (m (Some (hash e)) \<noteq> None
          \<and> (case m (Some (hash e)) of Some c \<Rightarrow> enabled c | None \<Rightarrow> False))
      \<or> m (Some (hash e)) = None)"

text \<open>
  \<^verbatim>\<open>getEligibleEndpoints\<close>. The two arguments after the allow list are the settlements of
  \<^verbatim>\<open>webhookProvider.getEndpoints()\<close> and \<^verbatim>\<open>circuitBreakerProvider.getConfigurations()\<close>.
  The first is awaited before the \<^verbatim>\<open>try\<close>, the second inside it, where the \<^verbatim>\<open>catch\<close>
  takes whatever is thrown. A configuration that arrives is an array, so
  \<^verbatim>\<open>if (config)\<close> holds whenever it is reached.
\<close>

definition getEligibleEndpoints ::
  "string set \<Rightarrow> failure + WebhookConfiguration list
     \<Rightarrow> failure + CircuitBreakerConfiguration list \<Rightarrow> failure + WebhookConfiguration list" where
  "getEligibleEndpoints ALLOW_LIST getEndpoints getConfigs =
     (case getEndpoints of
        Inl e \<Rightarrow> Inl e
      | Inr endpoints \<Rightarrow>
          (case getConfigs of
             Inl e \<Rightarrow> Inr endpoints
           | Inr config \<Rightarrow>
               Inr (foldl (\<lambda>enabledEndpoints e.
                             if endpointEnabled ALLOW_LIST (fillerToConfigMap config) e
                             then enabledEndpoints @ [e] else enabledEndpoints)
                      [] endpoints)))"

subsection \<open>One endpoint: fetchQuote\<close>

record 'd AxiosResponse =
  status :: int
  data :: 'd

text \<open>
  What happens on the wire for one endpoint: how the promise of the primary
  \<^verbatim>\<open>axios.post\<close> and that of the opposing one settle. When both reject,
  \<^verbatim>\<open>Promise.all\<close> rejects with the rejection that comes first in time, which
  \<open>oppositeRejectsFirst\<close> tells.
\<close>

record 'd Wire =
  hookSettles :: "failure + 'd AxiosResponse"
  oppositeSettles :: "failure + 'd AxiosResponse"
  oppositeRejectsFirst :: bool

definition Promise_all2 ::
  "bool \<Rightarrow> failure + 'a \<Rightarrow> failure + 'b \<Rightarrow> failure + 'a \<times> 'b" where
  "Promise_all2 secondRejectsFirst p q =
     (case p of
        Inr a \<Rightarrow> (case q of Inr b \<Rightarrow> Inr (a, b) | Inl e \<Rightarrow> Inl e)
      | Inl e \<Rightarrow> (case q of Inr b \<Rightarrow> Inl e
                   | Inl e' \<Rightarrow> Inl (if secondRejectsFirst then e' else e)))"

text \<open>The \<^verbatim>\<open>responseType\<close> of the analytics event that \<^verbatim>\<open>fetchQuote\<close> sends.\<close>

datatype ResponseType =
    NO_QUOTE | VALIDATION_ERROR | REQUEST_ID_MISMATCH | OK
  | TIMEOUT | HTTP_ERROR | OTHER_ERROR

text \<open>
  What one call of \<^verbatim>\<open>fetchQuote\<close> does: the \<^verbatim>\<open>axios.post\<close> calls it issues, each with its
  URL and the \<^verbatim>\<open>timeout\<close> of its \<^verbatim>\<open>axiosConfig\<close>; the \<^verbatim>\<open>responseType\<close> of the event it
  sends, if it sends one; whether it logs the opposing quote; and the value it returns
  (\<open>None\<close> for \<^verbatim>\<open>null\<close>).
\<close>

record FetchOutcome =
  posts :: "(string \<times> int) list"
  responseType :: "ResponseType option"
  opposingLogged :: bool
  returned :: "QuoteResponse option"

text \<open>
  \<^verbatim>\<open>timeoutOverride ? Number(timeoutOverride) : WEBHOOK_TIMEOUT_MS\<close>, where
  \<^verbatim>\<open>timeoutOverride\<close> is \<^verbatim>\<open>config.overrides?.timeout\<close>: a number is truthy unless it is
  zero.
\<close>

definition axiosTimeout :: "WebhookConfiguration \<Rightarrow> int" where
  "axiosTimeout config =
     (case overrides config of
        None \<Rightarrow> WEBHOOK_TIMEOUT_MS
      | Some ov \<Rightarrow> if timeout ov \<noteq> 0 then timeout ov else WEBHOOK_TIMEOUT_MS)"

definition isNonQuote :: "QuoteRequest \<Rightarrow> 'd AxiosResponse \<Rightarrow> QuoteResponse \<Rightarrow> bool" where
  "isNonQuote request hookResponse parsedResponse =
     (if status hookResponse = 404 then True
      else let quote = (if req_type request = EXACT_INPUT then amountOut parsedResponse
                        else amountIn parsedResponse)
           in if quote = 0 then True else False)"

text \<open>The \<^verbatim>\<open>catch\<close> block of \<^verbatim>\<open>fetchQuote\<close>.\<close>

definition errorResponseType :: "failure \<Rightarrow> ResponseType" where
  "errorResponseType e =
     (case e of
        AxiosError code \<Rightarrow> if code = Some ''ECONNABORTED'' then TIMEOUT else HTTP_ERROR
      | OtherError msg \<Rightarrow> OTHER_ERROR)"

text \<open>
  \<^verbatim>\<open>fetchQuote(config, request)\<close>. The entity code is not part of these sources and is
  passed in: \<open>fromRFQ\<close> is \<^verbatim>\<open>QuoteResponse.fromRFQ\<close>, giving the parsed response and
  \<^verbatim>\<open>validation.error\<close>, and \<open>toOpposingRequest\<close> is the request's method of that name.
  Metrics, logs and the sending of the analytics event return nothing the function
  uses; they and the two entity functions are taken to complete without throwing.
\<close>

definition fetchQuote ::
  "(QuoteRequest \<Rightarrow> 'd \<Rightarrow> TradeType \<Rightarrow> QuoteResponse \<times> string option)
     \<Rightarrow> (QuoteRequest \<Rightarrow> QuoteRequest) \<Rightarrow> 'd Wire
     \<Rightarrow> WebhookConfiguration \<Rightarrow> QuoteRequest \<Rightarrow> FetchOutcome" where
  "fetchQuote fromRFQ toOpposingRequest wire config request =
     (if (case chainIds config of
            None \<Rightarrow> False
          | Some ids \<Rightarrow> req_tokenInChainId request \<notin> set ids)
      then \<lparr>posts = [], responseType = None, opposingLogged = False, returned = None\<rparr>
      else
        let axiosConfig = axiosTimeout config;
            issued = [(endpoint config, axiosConfig), (endpoint config, axiosConfig)]
        in case Promise_all2 (oppositeRejectsFirst wire) (hookSettles wire) (oppositeSettles wire) of
             Inl e \<Rightarrow>
               \<lparr>posts = issued, responseType = Some (errorResponseType e),
                opposingLogged = False, returned = None\<rparr>
           | Inr (hookResponse, opposite) \<Rightarrow>
               (case fromRFQ request (data hookResponse) (req_type request) of
                  (response, validationError) \<Rightarrow>
                    if isNonQuote request hookResponse response
                    then \<lparr>posts = issued, responseType = Some NO_QUOTE,
                          opposingLogged = False, returned = None\<rparr>
                    else if validationError \<noteq> None
                    then \<lparr>posts = issued, responseType = Some VALIDATION_ERROR,
                          opposingLogged = False, returned = None\<rparr>
                    else if requestId response \<noteq> req_requestId request
                    then \<lparr>posts = issued, responseType = Some REQUEST_ID_MISMATCH,
                          opposingLogged = False, returned = None\<rparr>
                    else
                      let opposingRequest = toOpposingRequest request;
                          opposingResponse =
                            fromRFQ opposingRequest (data opposite) (req_type opposingRequest)
                      in \<lparr>posts = issued, responseType = Some OK,
                           opposingLogged =
                             (\<not> isNonQuote opposingRequest opposite (fst opposingResponse)
                              \<and> snd opposingResponse = None),
                           returned = Some response\<rparr>))"

subsection \<open>All endpoints: quote\<close>

text \<open>
  The callback of the \<^verbatim>\<open>endpoints.filter\<close> call in \<^verbatim>\<open>quote\<close>; the map is keyed by the
  endpoint's URL.
\<close>

definition notExcluded ::
  "(string \<rightharpoonup> string set) \<Rightarrow> QuoteRequest \<Rightarrow> WebhookConfiguration \<Rightarrow> bool" where
  "notExcluded endpointToAddrsMap request e =
     (endpointToAddrsMap (endpoint e) = None
      \<or> (case endpointToAddrsMap (endpoint e) of
            None \<Rightarrow> True
          | Some addrs \<Rightarrow> req_swapper request \<notin> addrs))"

record QuoteRun =
  fetched :: "(WebhookConfiguration \<times> FetchOutcome) list"
  quotes :: "QuoteResponse list"

text \<open>
  \<^verbatim>\<open>quote(request)\<close>. \<open>getEndpoints\<close>, \<open>getConfigs\<close> and \<open>getExcluded\<close> are the
  settlements of the three provider calls, \<open>wire\<close> gives what happens on the wire for
  each endpoint. \<^verbatim>\<open>Array.prototype.filter\<close> returns a new array and leaves
  \<^verbatim>\<open>endpoints\<close> as it is; the statement in \<^verbatim>\<open>quote\<close> does not bind the new array
  (\<open>filtered\<close> below), and the \<^verbatim>\<open>map\<close> that follows runs over \<^verbatim>\<open>endpoints\<close>.
\<close>

definition quote ::
  "string set
     \<Rightarrow> (QuoteRequest \<Rightarrow> 'd \<Rightarrow> TradeType \<Rightarrow> QuoteResponse \<times> string option)
     \<Rightarrow> (QuoteRequest \<Rightarrow> QuoteRequest)
     \<Rightarrow> failure + WebhookConfiguration list
     \<Rightarrow> failure + CircuitBreakerConfiguration list
     \<Rightarrow> failure + (string \<rightharpoonup> string set)
     \<Rightarrow> (WebhookConfiguration \<Rightarrow> 'd Wire)
     \<Rightarrow> QuoteRequest \<Rightarrow> failure + QuoteRun" where
  "quote ALLOW_LIST fromRFQ toOpposingRequest getEndpoints getConfigs getExcluded wire request =
     (case getEligibleEndpoints ALLOW_LIST getEndpoints getConfigs of
        Inl e \<Rightarrow> Inl e
      | Inr endpoints \<Rightarrow>
          (case getExcluded of
             Inl e \<Rightarrow> Inl e
           | Inr endpointToAddrsMap \<Rightarrow>
               let filtered = filter (notExcluded endpointToAddrsMap request) endpoints;
                   outcomes = map (\<lambda>e. (e, fetchQuote fromRFQ toOpposingRequest (wire e) e request))
                                endpoints
               in Inr \<lparr>fetched = outcomes,
                       quotes = List.map_filter (\<lambda>(e, out). returned out) outcomes\<rparr>))"

section \<open>Example inputs\<close>

text \<open>
  One request, one endpoint and one quote, used where a statement is evaluated at a
  concrete input. In the examples the body on the wire is already what the parser
  makes of it (the parsed response and the validation error), and the opposing request
  is the request with the trade type flipped.
\<close>

definition exRequest :: QuoteRequest where
  "exRequest = \<lparr>req_requestId = ''req-1'', req_swapper = ''0xswapper'',
                 req_tokenInChainId = 1, req_type = EXACT_INPUT\<rparr>"

definition exEndpoint :: WebhookConfiguration where
  "exEndpoint = \<lparr>name = ''A'', endpoint = ''https://a.example/quote'', hash = ''hashA'',
                  headers = None, overrides = None, chainIds = Some [1, 137]\<rparr>"

definition exQuote :: QuoteResponse where
  "exQuote = \<lparr>requestId = ''req-1'', swapper = ''0xswapper'', amountIn = 1000, amountOut = 990\<rparr>"

definition exParse ::
  "QuoteRequest \<Rightarrow> QuoteResponse \<times> string option \<Rightarrow> TradeType \<Rightarrow> QuoteResponse \<times> string option" where
  "exParse request body tradeType = body"

definition exOpposing :: "QuoteRequest \<Rightarrow> QuoteRequest" where
  "exOpposing request =
     request\<lparr>req_type := (if req_type request = EXACT_INPUT then EXACT_OUTPUT else EXACT_INPUT)\<rparr>"

definition exAnswer :: "int \<Rightarrow> QuoteResponse \<Rightarrow> failure + (QuoteResponse \<times> string option) AxiosResponse" where
  "exAnswer code q = Inr \<lparr>status = code, data = (q, None)\<rparr>"

definition exTimeout :: "failure + (QuoteResponse \<times> string option) AxiosResponse" where
  "exTimeout = Inl (AxiosError (Some ''ECONNABORTED''))"

section \<open>Properties\<close>

subsection \<open>Properties of the reduction\<close>

lemma foldl_bestQuoteStep_Some:
  "\<exists>q. foldl bestQuoteStep (Some b) xs = Some q \<and> q \<in> set (b # xs)
       \<and> (\<forall>x \<in> set (b # xs). amountOut x \<le> amountOut q)
       \<and> (\<exists>i < length (b # xs). (b # xs) ! i = q
            \<and> (\<forall>j < i. amountOut ((b # xs) ! j) < amountOut q))"
proof (induction xs arbitrary: b)
  case Nil
  show ?case by (auto intro: exI [of _ 0])
next
  case (Cons x xs)
  show ?case
  proof (cases "amountOut x > amountOut b")
    case True
    from Cons.IH [of x] obtain q i where
      q: "foldl bestQuoteStep (Some x) xs = Some q" "q \<in> set (x # xs)"
         "\<forall>y \<in> set (x # xs). amountOut y \<le> amountOut q"
         "i < length (x # xs)" "(x # xs) ! i = q"
         "\<forall>j < i. amountOut ((x # xs) ! j) < amountOut q"
      by blast
    have bq: "amountOut b < amountOut q" using True q(2,3) by fastforce
    have "\<forall>j < Suc i. amountOut ((b # x # xs) ! j) < amountOut q"
      using q(6) bq by (auto simp: less_Suc_eq_0_disj)
    moreover have "Suc i < length (b # x # xs)" "(b # x # xs) ! Suc i = q"
      using q(4,5) by auto
    moreover have "\<forall>y \<in> set (b # x # xs). amountOut y \<le> amountOut q"
      using q(3) bq by auto
    moreover have "foldl bestQuoteStep (Some b) (x # xs) = Some q"
      using True q(1) by (simp add: bestQuoteStep_def)
    moreover have "q \<in> set (b # x # xs)" using q(2) by auto
    ultimately show ?thesis by blast
  next
    case False
    from Cons.IH [of b] obtain q i where
      q: "foldl bestQuoteStep (Some b) xs = Some q" "q \<in> set (b # xs)"
         "\<forall>y \<in> set (b # xs). amountOut y \<le> amountOut q"
         "i < length (b # xs)" "(b # xs) ! i = q"
         "\<forall>j < i. amountOut ((b # xs) ! j) < amountOut q"
      by blast
    have xq: "amountOut x \<le> amountOut q" using False q(3) by fastforce
    define i' where "i' = (if i = 0 then 0 else Suc i)"
    have "i' < length (b # x # xs)" "(b # x # xs) ! i' = q"
      using q(4,5) by (auto simp: i'_def nth_Cons split: nat.splits)
    moreover have "\<forall>j < i'. amountOut ((b # x # xs) ! j) < amountOut q"
    proof (intro allI impI)
      fix j assume j: "j < i'"
      then have i0: "i \<noteq> 0" by (auto simp: i'_def split: if_splits)
      show "amountOut ((b # x # xs) ! j) < amountOut q"
      proof (cases j)
        case 0
        then show ?thesis using q(6) i0 by force
      next
        case (Suc k)
        show ?thesis
        proof (cases k)
          case 0
          have "amountOut b < amountOut q" using q(6) i0 by force
          then show ?thesis using False Suc 0 by simp
        next
          case (Suc m)
          have "Suc m < i" using j \<open>j = Suc k\<close> Suc i0 by (simp add: i'_def)
          then have "amountOut ((b # xs) ! Suc m) < amountOut q" using q(6) by blast
          then show ?thesis using \<open>j = Suc k\<close> Suc by simp
        qed
      qed
    qed
    moreover have "\<forall>y \<in> set (b # x # xs). amountOut y \<le> amountOut q"
      using q(3) xq by auto
    moreover have "foldl bestQuoteStep (Some b) (x # xs) = Some q"
      using False q(1) by (simp add: bestQuoteStep_def)
    moreover have "q \<in> set (b # x # xs)" using q(2) by auto
    ultimately show ?thesis by blast
  qed
qed

lemma reduceBestQuote_Nil: "reduceBestQuote [] = None"
  by (simp add: reduceBestQuote_def)

lemma reduceBestQuote_Cons:
  "reduceBestQuote (x # xs) = foldl bestQuoteStep (Some x) xs"
  by (simp add: reduceBestQuote_def bestQuoteStep_def)

text \<open>
  Claim C5. When every quoter answers, \<^verbatim>\<open>getBestQuote\<close> returns \<^verbatim>\<open>null\<close> for an empty
  list of quotes, and otherwise the quote at some position \<open>i\<close> of the list such that
  no quote of the list has a greater \<^verbatim>\<open>amountOut\<close> and every quote before position \<open>i\<close>
  has a strictly smaller one: the greatest amount, and among equal amounts the first
  in iteration order.
\<close>

theorem getBestQuote_first_greatest:
  assumes "Promise_all (map (\<lambda>q. q quoteRequest) quoters) = Inr responses"
  shows "(responses = [] \<longrightarrow> getBestQuote quoters quoteRequest = Inr None)
       \<and> (responses \<noteq> [] \<longrightarrow>
            (\<exists>q i. getBestQuote quoters quoteRequest = Inr (Some q)
                 \<and> i < length responses \<and> responses ! i = q
                 \<and> (\<forall>r \<in> set responses. amountOut r \<le> amountOut q)
                 \<and> (\<forall>j < i. amountOut (responses ! j) < amountOut q)))"
proof (cases responses)
  case Nil
  then show ?thesis using assms by (simp add: getBestQuote_def reduceBestQuote_Nil)
next
  case (Cons x xs)
  have g: "getBestQuote quoters quoteRequest = Inr (foldl bestQuoteStep (Some x) xs)"
    using assms Cons by (simp add: getBestQuote_def reduceBestQuote_Cons)
  from foldl_bestQuoteStep_Some [of x xs] obtain q i where
    q: "foldl bestQuoteStep (Some x) xs = Some q" "i < length (x # xs)" "(x # xs) ! i = q"
    "\<forall>r \<in> set (x # xs). amountOut r \<le> amountOut q"
    "\<forall>j < i. amountOut ((x # xs) ! j) < amountOut q"
    by blast
  have "getBestQuote quoters quoteRequest = Inr (Some q)
      \<and> i < length responses \<and> responses ! i = q
      \<and> (\<forall>r \<in> set responses. amountOut r \<le> amountOut q)
      \<and> (\<forall>j < i. amountOut (responses ! j) < amountOut q)"
    using g q unfolding Cons by simp
  then have "\<exists>q i. getBestQuote quoters quoteRequest = Inr (Some q)
      \<and> i < length responses \<and> responses ! i = q
      \<and> (\<forall>r \<in> set responses. amountOut r \<le> amountOut q)
      \<and> (\<forall>j < i. amountOut (responses ! j) < amountOut q)"
    by (intro exI)
  then show ?thesis using Cons by simp
qed

theorem getBestQuote_first_greatest_witness:
  "Promise_all (map (\<lambda>q. q \<lparr>req_requestId = ''r'', req_swapper = ''s'',
                              req_tokenInChainId = 1, req_type = EXACT_INPUT\<rparr>)
      [\<lambda>_. Inr \<lparr>requestId = ''r'', swapper = ''a'', amountIn = 1, amountOut = 100\<rparr>,
       \<lambda>_. Inr \<lparr>requestId = ''r'', swapper = ''b'', amountIn = 1, amountOut = 150\<rparr>,
       \<lambda>_. Inr \<lparr>requestId = ''r'', swapper = ''c'', amountIn = 1, amountOut = 150\<rparr>])
     = Inr [\<lparr>requestId = ''r'', swapper = ''a'', amountIn = 1, amountOut = 100\<rparr>,
            \<lparr>requestId = ''r'', swapper = ''b'', amountIn = 1, amountOut = 150\<rparr>,
            \<lparr>requestId = ''r'', swapper = ''c'', amountIn = 1, amountOut = 150\<rparr>]
   \<and> getBestQuote
      [\<lambda>_. Inr \<lparr>requestId = ''r'', swapper = ''a'', amountIn = 1, amountOut = 100\<rparr>,
       \<lambda>_. Inr \<lparr>requestId = ''r'', swapper = ''b'', amountIn = 1, amountOut = 150\<rparr>,
       \<lambda>_. Inr \<lparr>requestId = ''r'', swapper = ''c'', amountIn = 1, amountOut = 150\<rparr>]
      \<lparr>req_requestId = ''r'', req_swapper = ''s'', req_tokenInChainId = 1, req_type = EXACT_INPUT\<rparr>
     = Inr (Some \<lparr>requestId = ''r'', swapper = ''b'', amountIn = 1, amountOut = 150\<rparr>)"
  using getBestQuote_first_greatest
    [of "\<lparr>req_requestId = ''r'', req_swapper = ''s'', req_tokenInChainId = 1, req_type = EXACT_INPUT\<rparr>"
        "[\<lambda>_. Inr \<lparr>requestId = ''r'', swapper = ''a'', amountIn = 1, amountOut = 100\<rparr>,
          \<lambda>_. Inr \<lparr>requestId = ''r'', swapper = ''b'', amountIn = 1, amountOut = 150\<rparr>,
          \<lambda>_. Inr \<lparr>requestId = ''r'', swapper = ''c'', amountIn = 1, amountOut = 150\<rparr>]"
        "[\<lparr>requestId = ''r'', swapper = ''a'', amountIn = 1, amountOut = 100\<rparr>,
          \<lparr>requestId = ''r'', swapper = ''b'', amountIn = 1, amountOut = 150\<rparr>,
          \<lparr>requestId = ''r'', swapper = ''c'', amountIn = 1, amountOut = 150\<rparr>]"]
  by (simp add: getBestQuote_def reduceBestQuote_def bestQuoteStep_def)

subsection \<open>Properties of the configuration provider\<close>

lemma foldl_pushConfiguration:
  "foldl pushConfiguration acc fillRates =
     acc @ map (\<lambda>(filler, rate). \<lparr>cb_name = filler, cb_hash = None, fadeRate = rate,
                                   enabled = (rate < FILL_RATE_THRESHOLD)\<rparr>) fillRates"
  by (induction fillRates arbitrary: acc) (auto simp: pushConfiguration_def)

lemma buildConfigurations_map:
  "buildConfigurations fillRates =
     map (\<lambda>(filler, rate). \<lparr>cb_name = filler, cb_hash = None, fadeRate = rate,
                             enabled = (rate < FILL_RATE_THRESHOLD)\<rparr>) fillRates"
  by (simp add: buildConfigurations_def foldl_pushConfiguration)

text \<open>
  Claim C9. When the \<^verbatim>\<open>PutObjectCommand\<close> goes through, \<^verbatim>\<open>putConfigurations\<close> stores
  under the provider's bucket and key an array with one record per entry of the fill
  rate map, in order; the record of an entry has the entry's name and rate, and is
  enabled exactly when the rate is below \<open>4/10\<close>. The stored array is the same
  whatever the bucket held before: the object is replaced, nothing of the old one stays.
\<close>

theorem putConfigurations_stores_fresh_snapshot:
  "\<exists>config.
      putConfigurations None this s3 fillRates
        = (Inr (), s3((bucket this, key this) \<mapsto> ConfigJson config))
    \<and> length config = length fillRates
    \<and> (\<forall>i < length fillRates.
          cb_name (config ! i) = fst (fillRates ! i)
        \<and> fadeRate (config ! i) = snd (fillRates ! i)
        \<and> (enabled (config ! i) \<longleftrightarrow> snd (fillRates ! i) < 4 / 10))
    \<and> (\<forall>s3'. snd (putConfigurations None this s3' fillRates) (bucket this, key this)
              = Some (ConfigJson config))"
proof -
  let ?mk = "\<lambda>(filler, rate). \<lparr>cb_name = filler, cb_hash = None, fadeRate = rate,
                                enabled = (rate < FILL_RATE_THRESHOLD)\<rparr>"
  let ?config = "map ?mk fillRates"
  have put: "\<And>store. putConfigurations None this store fillRates
        = (Inr (), store((bucket this, key this) \<mapsto> ConfigJson ?config))"
    by (simp add: putConfigurations_def buildConfigurations_map)
  have fields: "\<forall>i < length fillRates.
          cb_name (?config ! i) = fst (fillRates ! i)
        \<and> fadeRate (?config ! i) = snd (fillRates ! i)
        \<and> (enabled (?config ! i) \<longleftrightarrow> snd (fillRates ! i) < 4 / 10)"
    by (auto simp: FILL_RATE_THRESHOLD_def split: prod.splits)
  have "length ?config = length fillRates" by simp
  moreover have "\<forall>s3'. snd (putConfigurations None this s3' fillRates) (bucket this, key this)
              = Some (ConfigJson ?config)"
    by (simp add: put)
  ultimately show ?thesis using put [of s3] fields by blast
qed

theorem putConfigurations_stores_fresh_snapshot_witness:
  "putConfigurations None
      \<lparr>bucket = ''fade-rate'', key = ''prod.json'', fillers = [], lastUpdatedTimestamp = 0\<rparr>
      (Map.empty((''fade-rate'', ''prod.json'') \<mapsto>
          ConfigJson [\<lparr>cb_name = ''old'', cb_hash = None, fadeRate = 1, enabled = False\<rparr>]))
      [(''a'', 1 / 2), (''b'', 3 / 10), (''c'', 4 / 10)]
    = (Inr (),
       Map.empty((''fade-rate'', ''prod.json'') \<mapsto>
          ConfigJson [\<lparr>cb_name = ''a'', cb_hash = None, fadeRate = 1 / 2, enabled = False\<rparr>,
                      \<lparr>cb_name = ''b'', cb_hash = None, fadeRate = 3 / 10, enabled = True\<rparr>,
                      \<lparr>cb_name = ''c'', cb_hash = None, fadeRate = 4 / 10, enabled = False\<rparr>]))"
  using putConfigurations_stores_fresh_snapshot
    [of "\<lparr>bucket = ''fade-rate'', key = ''prod.json'', fillers = [], lastUpdatedTimestamp = 0\<rparr>"
        "Map.empty((''fade-rate'', ''prod.json'') \<mapsto>
          ConfigJson [\<lparr>cb_name = ''old'', cb_hash = None, fadeRate = 1, enabled = False\<rparr>])"
        "[(''a'', 1 / 2), (''b'', 3 / 10), (''c'', 4 / 10)]"]
  by (simp add: putConfigurations_def buildConfigurations_def pushConfiguration_def
        FILL_RATE_THRESHOLD_def)

text \<open>
  Claim C10. A call of \<^verbatim>\<open>getConfigurations\<close> that fails (the send, the body check, the
  read of the body or the parse threw) leaves the provider as it was: the cached
  configurations and the timestamp of the last update are unchanged, so every later
  call behaves as it would have without the failed one.
\<close>

theorem getConfigurations_failure_keeps_cache:
  assumes "fst (getConfigurations now now' s3Res this) = Inl e"
  shows "snd (getConfigurations now now' s3Res this) = this
       \<and> fillers (snd (getConfigurations now now' s3Res this)) = fillers this
       \<and> lastUpdatedTimestamp (snd (getConfigurations now now' s3Res this))
           = lastUpdatedTimestamp this
       \<and> (\<forall>t t' r. getConfigurations t t' r (snd (getConfigurations now now' s3Res this))
                    = getConfigurations t t' r this)"
proof -
  have "snd (getConfigurations now now' s3Res this) = this"
    using assms
    by (auto simp: getConfigurations_def fetchConfigurations_def
          split: if_splits GetObjectOutcome.splits S3Body.splits)
  then show ?thesis by simp
qed

theorem getConfigurations_failure_keeps_cache_witness:
  "fst (getConfigurations 400000 400001 (BodyText (NotJson ''<html>''))
          \<lparr>bucket = ''fade-rate'', key = ''prod.json'',
           fillers = [\<lparr>cb_name = ''a'', cb_hash = Some ''h'', fadeRate = 0, enabled = True\<rparr>],
           lastUpdatedTimestamp = 0\<rparr>) = Inl (OtherError ''SyntaxError'')
   \<and> snd (getConfigurations 400000 400001 (BodyText (NotJson ''<html>''))
          \<lparr>bucket = ''fade-rate'', key = ''prod.json'',
           fillers = [\<lparr>cb_name = ''a'', cb_hash = Some ''h'', fadeRate = 0, enabled = True\<rparr>],
           lastUpdatedTimestamp = 0\<rparr>)
     = \<lparr>bucket = ''fade-rate'', key = ''prod.json'',
        fillers = [\<lparr>cb_name = ''a'', cb_hash = Some ''h'', fadeRate = 0, enabled = True\<rparr>],
        lastUpdatedTimestamp = 0\<rparr>"
proof -
  have h: "fst (getConfigurations 400000 400001 (BodyText (NotJson ''<html>''))
          \<lparr>bucket = ''fade-rate'', key = ''prod.json'',
           fillers = [\<lparr>cb_name = ''a'', cb_hash = Some ''h'', fadeRate = 0, enabled = True\<rparr>],
           lastUpdatedTimestamp = 0\<rparr>) = Inl (OtherError ''SyntaxError'')"
    by (simp add: getConfigurations_def fetchConfigurations_def UPDATE_PERIOD_MS_def)
  show ?thesis using h getConfigurations_failure_keeps_cache [OF h] by simp
qed

subsection \<open>Properties of fetchQuote\<close>

lemma fetchQuote_posts:
  "posts (fetchQuote fromRFQ toOpposingRequest wire config request) =
     (if (case chainIds config of None \<Rightarrow> False
          | Some ids \<Rightarrow> req_tokenInChainId request \<notin> set ids)
      then []
      else [(endpoint config, axiosTimeout config), (endpoint config, axiosTimeout config)])"
  by (simp add: fetchQuote_def Let_def split: sum.splits prod.splits)

text \<open>
  Claim C8, as the code has it. Every call that \<^verbatim>\<open>fetchQuote\<close> issues goes to the
  endpoint's URL with a timeout that is the override when the endpoint has one other
  than zero, and 500 ms when it has none or has the override zero.
\<close>

theorem fetchQuote_timeout_of_posts:
  assumes "p \<in> set (posts (fetchQuote fromRFQ toOpposingRequest wire config request))"
  shows "fst p = endpoint config
       \<and> snd p = (case overrides config of
                    None \<Rightarrow> 500
                  | Some ov \<Rightarrow> if timeout ov = 0 then 500 else timeout ov)"
  using assms
  by (auto simp: fetchQuote_posts axiosTimeout_def WEBHOOK_TIMEOUT_MS_def
        split: if_splits option.splits)

theorem fetchQuote_timeout_of_posts_witness:
  "(''https://a.example/quote'', 250)
     \<in> set (posts (fetchQuote exParse exOpposing
          \<lparr>hookSettles = exAnswer 200 exQuote, oppositeSettles = exAnswer 200 exQuote,
           oppositeRejectsFirst = False\<rparr>
          (exEndpoint\<lparr>overrides := Some \<lparr>timeout = 250\<rparr>\<rparr>) exRequest))
   \<and> fst (''https://a.example/quote'', 250 :: int)
       = endpoint (exEndpoint\<lparr>overrides := Some \<lparr>timeout = 250\<rparr>\<rparr>)
   \<and> snd (''https://a.example/quote'', 250 :: int)
       = (case overrides (exEndpoint\<lparr>overrides := Some \<lparr>timeout = 250\<rparr>\<rparr>) of
            None \<Rightarrow> 500
          | Some ov \<Rightarrow> if timeout ov = 0 then 500 else timeout ov)"
proof -
  have h: "(''https://a.example/quote'', 250)
     \<in> set (posts (fetchQuote exParse exOpposing
          \<lparr>hookSettles = exAnswer 200 exQuote, oppositeSettles = exAnswer 200 exQuote,
           oppositeRejectsFirst = False\<rparr>
          (exEndpoint\<lparr>overrides := Some \<lparr>timeout = 250\<rparr>\<rparr>) exRequest))"
    by (simp add: fetchQuote_posts exEndpoint_def exRequest_def axiosTimeout_def)
  show ?thesis using h fetchQuote_timeout_of_posts [OF h] by simp
qed

text \<open>
  Claim C8 as the specification words it fails for an endpoint whose override is
  zero: the override is present, and the calls go out with 500 ms.
\<close>

theorem fetchQuote_timeout_zero_override:
  "overrides (exEndpoint\<lparr>overrides := Some \<lparr>timeout = 0\<rparr>\<rparr>) = Some \<lparr>timeout = 0\<rparr>
   \<and> posts (fetchQuote exParse exOpposing
          \<lparr>hookSettles = exAnswer 200 exQuote, oppositeSettles = exAnswer 200 exQuote,
           oppositeRejectsFirst = False\<rparr>
          (exEndpoint\<lparr>overrides := Some \<lparr>timeout = 0\<rparr>\<rparr>) exRequest)
     = [(''https://a.example/quote'', 500), (''https://a.example/quote'', 500)]"
  by (simp add: fetchQuote_posts exEndpoint_def exRequest_def axiosTimeout_def
        WEBHOOK_TIMEOUT_MS_def)

lemma fetchQuote_both_resolve:
  assumes "\<not> (case chainIds config of None \<Rightarrow> False
              | Some ids \<Rightarrow> req_tokenInChainId request \<notin> set ids)"
    and "hookSettles wire = Inr hookResponse"
    and "oppositeSettles wire = Inr opposite"
    and "fromRFQ request (data hookResponse) (req_type request) = (response, validationError)"
  shows "responseType (fetchQuote fromRFQ toOpposingRequest wire config request) =
           Some (if isNonQuote request hookResponse response then NO_QUOTE
                 else if validationError \<noteq> None then VALIDATION_ERROR
                 else if requestId response \<noteq> req_requestId request then REQUEST_ID_MISMATCH
                 else OK)"
    and "returned (fetchQuote fromRFQ toOpposingRequest wire config request) =
           (if isNonQuote request hookResponse response \<or> validationError \<noteq> None
               \<or> requestId response \<noteq> req_requestId request
            then None else Some response)"
  using assms by (simp_all add: fetchQuote_def Promise_all2_def Let_def)

lemma fetchQuote_one_rejects:
  assumes "hookSettles wire = Inl e \<or> oppositeSettles wire = Inl e'"
  shows "returned (fetchQuote fromRFQ toOpposingRequest wire config request) = None"
    and "responseType (fetchQuote fromRFQ toOpposingRequest wire config request)
           \<notin> {Some NO_QUOTE, Some VALIDATION_ERROR, Some REQUEST_ID_MISMATCH, Some OK}"
  using assms
  by (auto simp: fetchQuote_def Promise_all2_def Let_def errorResponseType_def
        split: sum.splits failure.splits)

text \<open>
  Claim C2, evaluated. The primary call brings a valid quote for the request. When the
  opposing call answers too, \<^verbatim>\<open>fetchQuote\<close> returns the quote; when the opposing call
  runs into its timeout, the joint await rejects, the event is \<^verbatim>\<open>TIMEOUT\<close> and
  \<^verbatim>\<open>fetchQuote\<close> returns \<^verbatim>\<open>null\<close>.
\<close>

theorem fetchQuote_quote_lost_with_opposing_call:
  "returned (fetchQuote exParse exOpposing
      \<lparr>hookSettles = exAnswer 200 exQuote, oppositeSettles = exAnswer 200 exQuote,
       oppositeRejectsFirst = False\<rparr> exEndpoint exRequest) = Some exQuote
   \<and> returned (fetchQuote exParse exOpposing
      \<lparr>hookSettles = exAnswer 200 exQuote, oppositeSettles = exTimeout,
       oppositeRejectsFirst = False\<rparr> exEndpoint exRequest) = None
   \<and> responseType (fetchQuote exParse exOpposing
      \<lparr>hookSettles = exAnswer 200 exQuote, oppositeSettles = exTimeout,
       oppositeRejectsFirst = False\<rparr> exEndpoint exRequest) = Some TIMEOUT"
  by (simp add: fetchQuote_def Promise_all2_def Let_def exAnswer_def exTimeout_def
        exParse_def exOpposing_def exEndpoint_def exRequest_def exQuote_def
        isNonQuote_def errorResponseType_def)

text \<open>
  Claim C6, evaluated. The primary call brings a quote whose \<^verbatim>\<open>amountOut\<close> is zero for an
  exact input request. When the opposing call answers too, the event is \<^verbatim>\<open>NO_QUOTE\<close>;
  when the opposing call runs into its timeout, the event is \<^verbatim>\<open>TIMEOUT\<close>.
\<close>

theorem fetchQuote_zero_amount_with_opposing_timeout:
  "responseType (fetchQuote exParse exOpposing
      \<lparr>hookSettles = exAnswer 200 (exQuote\<lparr>amountOut := 0\<rparr>),
       oppositeSettles = exAnswer 200 exQuote,
       oppositeRejectsFirst = False\<rparr> exEndpoint exRequest) = Some NO_QUOTE
   \<and> responseType (fetchQuote exParse exOpposing
      \<lparr>hookSettles = exAnswer 200 (exQuote\<lparr>amountOut := 0\<rparr>),
       oppositeSettles = exTimeout,
       oppositeRejectsFirst = False\<rparr> exEndpoint exRequest) = Some TIMEOUT"
  by (simp add: fetchQuote_def Promise_all2_def Let_def exAnswer_def exTimeout_def
        exParse_def exOpposing_def exEndpoint_def exRequest_def exQuote_def
        isNonQuote_def errorResponseType_def)

text \<open>
  Claim C7, as the code has it. A primary response whose parsed \<^verbatim>\<open>requestId\<close> differs
  from the request's is never reported as \<^verbatim>\<open>OK\<close> and never returned. When the calls
  were issued, the opposing call answered too, the response is not a non-quote and it
  passes validation, the event is \<^verbatim>\<open>REQUEST_ID_MISMATCH\<close>.
\<close>

theorem fetchQuote_requestId_mismatch:
  assumes "hookSettles wire = Inr hookResponse"
    and "fromRFQ request (data hookResponse) (req_type request) = (response, validationError)"
    and "requestId response \<noteq> req_requestId request"
  shows "responseType (fetchQuote fromRFQ toOpposingRequest wire config request) \<noteq> Some OK
       \<and> returned (fetchQuote fromRFQ toOpposingRequest wire config request) = None
       \<and> ((case chainIds config of None \<Rightarrow> True
            | Some ids \<Rightarrow> req_tokenInChainId request \<in> set ids)
          \<and> (\<exists>opposite. oppositeSettles wire = Inr opposite)
          \<and> \<not> isNonQuote request hookResponse response
          \<and> validationError = None
          \<longrightarrow> responseType (fetchQuote fromRFQ toOpposingRequest wire config request)
                = Some REQUEST_ID_MISMATCH)"
  using assms
  by (auto simp: fetchQuote_def Promise_all2_def Let_def errorResponseType_def
        split: sum.splits option.splits failure.splits)

theorem fetchQuote_requestId_mismatch_witness:
  "hookSettles \<lparr>hookSettles = exAnswer 200 (exQuote\<lparr>requestId := ''req-2''\<rparr>),
       oppositeSettles = exAnswer 200 exQuote, oppositeRejectsFirst = False\<rparr>
     = Inr \<lparr>status = 200, data = (exQuote\<lparr>requestId := ''req-2''\<rparr>, None)\<rparr>
   \<and> exParse exRequest (exQuote\<lparr>requestId := ''req-2''\<rparr>, None) (req_type exRequest)
     = (exQuote\<lparr>requestId := ''req-2''\<rparr>, None)
   \<and> requestId (exQuote\<lparr>requestId := ''req-2''\<rparr>) \<noteq> req_requestId exRequest
   \<and> \<not> isNonQuote exRequest
         \<lparr>status = 200, data = (exQuote\<lparr>requestId := ''req-2''\<rparr>, None :: string option)\<rparr>
         (exQuote\<lparr>requestId := ''req-2''\<rparr>)
   \<and> responseType (fetchQuote exParse exOpposing
        \<lparr>hookSettles = exAnswer 200 (exQuote\<lparr>requestId := ''req-2''\<rparr>),
         oppositeSettles = exAnswer 200 exQuote, oppositeRejectsFirst = False\<rparr>
        exEndpoint exRequest) = Some REQUEST_ID_MISMATCH
   \<and> returned (fetchQuote exParse exOpposing
        \<lparr>hookSettles = exAnswer 200 (exQuote\<lparr>requestId := ''req-2''\<rparr>),
         oppositeSettles = exAnswer 200 exQuote, oppositeRejectsFirst = False\<rparr>
        exEndpoint exRequest) = None"
proof -
  let ?wire = "\<lparr>hookSettles = exAnswer 200 (exQuote\<lparr>requestId := ''req-2''\<rparr>),
       oppositeSettles = exAnswer 200 exQuote, oppositeRejectsFirst = False\<rparr>"
  let ?resp = "\<lparr>status = 200, data = (exQuote\<lparr>requestId := ''req-2''\<rparr>, None :: string option)\<rparr>"
  have h1: "hookSettles ?wire = Inr ?resp" by (simp add: exAnswer_def)
  have h2: "exParse exRequest (data ?resp) (req_type exRequest)
              = (exQuote\<lparr>requestId := ''req-2''\<rparr>, None)"
    by (simp add: exParse_def)
  have h3: "requestId (exQuote\<lparr>requestId := ''req-2''\<rparr>) \<noteq> req_requestId exRequest"
    by (simp add: exRequest_def)
  have h4: "\<not> isNonQuote exRequest ?resp (exQuote\<lparr>requestId := ''req-2''\<rparr>)"
    by (simp add: isNonQuote_def exRequest_def exQuote_def)
  have h5: "oppositeSettles ?wire = Inr \<lparr>status = 200, data = (exQuote, None)\<rparr>"
    by (simp add: exAnswer_def)
  have h6: "(case chainIds exEndpoint of None \<Rightarrow> True
            | Some ids \<Rightarrow> req_tokenInChainId exRequest \<in> set ids)"
    by (simp add: exEndpoint_def exRequest_def)
  show ?thesis
    using fetchQuote_requestId_mismatch
        [where wire = ?wire and hookResponse = ?resp and fromRFQ = exParse
           and request = exRequest and response = "exQuote\<lparr>requestId := ''req-2''\<rparr>"
           and validationError = None and toOpposingRequest = exOpposing
           and config = exEndpoint]
      h1 h2 h3 h4 h5 h6
    by simp
qed

text \<open>
  Claim C7 as the specification words it fails for a response that passes validation
  and carries another request's id, but quotes the amount zero: the non-quote check
  comes first, and the event is \<^verbatim>\<open>NO_QUOTE\<close>.
\<close>

theorem fetchQuote_mismatch_of_zero_quote:
  "snd (exParse exRequest (exQuote\<lparr>requestId := ''req-2'', amountOut := 0\<rparr>, None)
          (req_type exRequest)) = None
   \<and> requestId (fst (exParse exRequest (exQuote\<lparr>requestId := ''req-2'', amountOut := 0\<rparr>, None)
          (req_type exRequest))) \<noteq> req_requestId exRequest
   \<and> responseType (fetchQuote exParse exOpposing
        \<lparr>hookSettles = exAnswer 200 (exQuote\<lparr>requestId := ''req-2'', amountOut := 0\<rparr>),
         oppositeSettles = exAnswer 200 exQuote, oppositeRejectsFirst = False\<rparr>
        exEndpoint exRequest) = Some NO_QUOTE
   \<and> responseType (fetchQuote exParse exOpposing
        \<lparr>hookSettles = exAnswer 200 (exQuote\<lparr>requestId := ''req-2'', amountOut := 0\<rparr>),
         oppositeSettles = exAnswer 200 exQuote, oppositeRejectsFirst = False\<rparr>
        exEndpoint exRequest) \<noteq> Some REQUEST_ID_MISMATCH"
  by (simp add: fetchQuote_def Promise_all2_def Let_def exAnswer_def
        exParse_def exOpposing_def exEndpoint_def exRequest_def exQuote_def
        isNonQuote_def)

subsection \<open>Properties of the eligible endpoints\<close>

lemma fillerToConfigMap_snoc:
  "fillerToConfigMap (config @ [c]) = (fillerToConfigMap config)(cb_hash c \<mapsto> c)"
  by (simp add: fillerToConfigMap_def)

lemma fillerToConfigMap_None:
  "fillerToConfigMap config k = None \<longleftrightarrow> (\<forall>c \<in> set config. cb_hash c \<noteq> k)"
proof (induction config rule: rev_induct)
  case Nil
  show ?case by (simp add: fillerToConfigMap_def)
next
  case (snoc c config)
  then show ?case by (auto simp: fillerToConfigMap_snoc)
qed

lemma fillerToConfigMap_Some:
  "fillerToConfigMap config k = Some c \<Longrightarrow> c \<in> set config \<and> cb_hash c = k"
proof (induction config rule: rev_induct)
  case Nil
  then show ?case by (simp add: fillerToConfigMap_def)
next
  case (snoc x config)
  then show ?case by (auto simp: fillerToConfigMap_snoc split: if_splits)
qed

lemma enabledEndpoints_filter:
  "foldl (\<lambda>enabledEndpoints e. if P e then enabledEndpoints @ [e] else enabledEndpoints)
     acc endpoints = acc @ filter P endpoints"
  by (induction endpoints arbitrary: acc) auto

lemma getEligibleEndpoints_filter:
  "getEligibleEndpoints ALLOW_LIST (Inr endpoints) (Inr config) =
     Inr (filter (endpointEnabled ALLOW_LIST (fillerToConfigMap config)) endpoints)"
  by (simp add: getEligibleEndpoints_def enabledEndpoints_filter)

lemma at_most_one_record:
  assumes "length (filter P xs) \<le> 1" and "a \<in> set xs" and "P a" and "b \<in> set xs" and "P b"
  shows "a = b"
proof -
  have "a \<in> set (filter P xs)" "b \<in> set (filter P xs)" using assms by auto
  moreover obtain ys where "filter P xs = ys" by blast
  ultimately show ?thesis using assms(1)
    by (cases "filter P xs"; cases "tl (filter P xs)") auto
qed

text \<open>
  Claim C3. The snapshot that \<^verbatim>\<open>getEligibleEndpoints\<close> consults is the map it builds from
  the configuration array. When the directory and the configuration arrive, the
  eligible endpoints contain \<open>e\<close> exactly when \<open>e\<close> is an endpoint of the directory and
  its hash is in the allow list, or the map has a record for its hash and that record
  is enabled, or the map has no record for its hash. When the array holds at most one
  record for the hash of \<open>e\<close> (it is a mapping already), the same holds with the
  records of the array in place of those of the map, and an endpoint outside the allow
  list whose record is disabled is not eligible.
\<close>

theorem getEligibleEndpoints_admission:
  "\<exists>eligible.
      getEligibleEndpoints ALLOW_LIST (Inr endpoints) (Inr config) = Inr eligible
    \<and> (e \<in> set eligible \<longleftrightarrow>
         e \<in> set endpoints
         \<and> (hash e \<in> ALLOW_LIST
            \<or> (\<exists>c. fillerToConfigMap config (Some (hash e)) = Some c \<and> enabled c)
            \<or> fillerToConfigMap config (Some (hash e)) = None))
    \<and> (length (filter (\<lambda>c. cb_hash c = Some (hash e)) config) \<le> 1 \<longrightarrow>
         (e \<in> set eligible \<longleftrightarrow>
            e \<in> set endpoints
            \<and> (hash e \<in> ALLOW_LIST
               \<or> (\<exists>c \<in> set config. cb_hash c = Some (hash e) \<and> enabled c)
               \<or> (\<forall>c \<in> set config. cb_hash c \<noteq> Some (hash e))))
         \<and> (hash e \<notin> ALLOW_LIST
              \<and> (\<exists>c \<in> set config. cb_hash c = Some (hash e) \<and> \<not> enabled c)
              \<longrightarrow> e \<notin> set eligible))"
proof -
  let ?m = "fillerToConfigMap config"
  let ?k = "Some (hash e)"
  have byMap: "endpointEnabled ALLOW_LIST ?m e \<longleftrightarrow>
              hash e \<in> ALLOW_LIST \<or> (\<exists>c. ?m ?k = Some c \<and> enabled c) \<or> ?m ?k = None"
    by (cases "?m ?k") (simp_all add: endpointEnabled_def)
  have byArray: "(endpointEnabled ALLOW_LIST ?m e \<longleftrightarrow>
              hash e \<in> ALLOW_LIST
              \<or> (\<exists>c \<in> set config. cb_hash c = ?k \<and> enabled c)
              \<or> (\<forall>c \<in> set config. cb_hash c \<noteq> ?k))
         \<and> (hash e \<notin> ALLOW_LIST
              \<and> (\<exists>c \<in> set config. cb_hash c = ?k \<and> \<not> enabled c)
              \<longrightarrow> \<not> endpointEnabled ALLOW_LIST ?m e)"
    if uniq: "length (filter (\<lambda>c. cb_hash c = ?k) config) \<le> 1"
  proof -
    have one: "\<And>a b. a \<in> set config \<Longrightarrow> cb_hash a = ?k \<Longrightarrow> b \<in> set config
               \<Longrightarrow> cb_hash b = ?k \<Longrightarrow> a = b"
      using at_most_one_record [OF uniq] by blast
    have en: "endpointEnabled ALLOW_LIST ?m e \<longleftrightarrow>
              hash e \<in> ALLOW_LIST
              \<or> (\<exists>c \<in> set config. cb_hash c = ?k \<and> enabled c)
              \<or> (\<forall>c \<in> set config. cb_hash c \<noteq> ?k)"
    proof (cases "?m ?k")
      case None
      then show ?thesis
        using fillerToConfigMap_None [of config ?k] by (simp add: endpointEnabled_def)
    next
      case (Some c)
      then have c: "c \<in> set config" "cb_hash c = ?k"
        using fillerToConfigMap_Some by blast+
      have "(\<exists>c' \<in> set config. cb_hash c' = ?k \<and> enabled c') \<longleftrightarrow> enabled c"
        using c one by blast
      moreover have "\<not> (\<forall>c' \<in> set config. cb_hash c' \<noteq> ?k)" using c by blast
      moreover have "endpointEnabled ALLOW_LIST ?m e \<longleftrightarrow> hash e \<in> ALLOW_LIST \<or> enabled c"
        using Some by (simp add: endpointEnabled_def)
      ultimately show ?thesis by blast
    qed
    then show ?thesis using one by blast
  qed
  show ?thesis
    using byMap byArray by (simp add: getEligibleEndpoints_filter)
qed

theorem getEligibleEndpoints_admission_witness:
  "length (filter (\<lambda>c. cb_hash c = Some (hash exEndpoint))
       [\<lparr>cb_name = ''A'', cb_hash = Some ''hashA'', fadeRate = 1 / 2, enabled = False\<rparr>,
        \<lparr>cb_name = ''B'', cb_hash = Some ''hashB'', fadeRate = 1 / 10, enabled = True\<rparr>,
          \<lparr>cb_name = ''Z'', cb_hash = Some ''hashZ'', fadeRate = 9 / 10, enabled = False\<rparr>]) \<le> 1
   \<and> getEligibleEndpoints {''hashZ''}
       (Inr [exEndpoint, exEndpoint\<lparr>name := ''B'', hash := ''hashB''\<rparr>,
             exEndpoint\<lparr>name := ''C'', hash := ''hashC''\<rparr>,
             exEndpoint\<lparr>name := ''Z'', hash := ''hashZ''\<rparr>])
       (Inr [\<lparr>cb_name = ''A'', cb_hash = Some ''hashA'', fadeRate = 1 / 2, enabled = False\<rparr>,
             \<lparr>cb_name = ''B'', cb_hash = Some ''hashB'', fadeRate = 1 / 10, enabled = True\<rparr>,
          \<lparr>cb_name = ''Z'', cb_hash = Some ''hashZ'', fadeRate = 9 / 10, enabled = False\<rparr>])
     = Inr [exEndpoint\<lparr>name := ''B'', hash := ''hashB''\<rparr>,
            exEndpoint\<lparr>name := ''C'', hash := ''hashC''\<rparr>,
            exEndpoint\<lparr>name := ''Z'', hash := ''hashZ''\<rparr>]"
proof -
  have h: "length (filter (\<lambda>c. cb_hash c = Some (hash exEndpoint))
       [\<lparr>cb_name = ''A'', cb_hash = Some ''hashA'', fadeRate = 1 / 2, enabled = False\<rparr>,
        \<lparr>cb_name = ''B'', cb_hash = Some ''hashB'', fadeRate = 1 / 10, enabled = True\<rparr>,
          \<lparr>cb_name = ''Z'', cb_hash = Some ''hashZ'', fadeRate = 9 / 10, enabled = False\<rparr>]) \<le> 1"
    by (simp add: exEndpoint_def)
  show ?thesis
    using h getEligibleEndpoints_admission [of "{''hashZ''}"
        "[exEndpoint, exEndpoint\<lparr>name := ''B'', hash := ''hashB''\<rparr>,
             exEndpoint\<lparr>name := ''C'', hash := ''hashC''\<rparr>,
             exEndpoint\<lparr>name := ''Z'', hash := ''hashZ''\<rparr>]"
        "[\<lparr>cb_name = ''A'', cb_hash = Some ''hashA'', fadeRate = 1 / 2, enabled = False\<rparr>,
          \<lparr>cb_name = ''B'', cb_hash = Some ''hashB'', fadeRate = 1 / 10, enabled = True\<rparr>,
          \<lparr>cb_name = ''Z'', cb_hash = Some ''hashZ'', fadeRate = 9 / 10, enabled = False\<rparr>]"
        exEndpoint]
    by (simp add: getEligibleEndpoints_def endpointEnabled_def fillerToConfigMap_def
          exEndpoint_def)
qed

subsection \<open>Properties of quote\<close>

lemma quote_ignores_exclusions:
  "quote ALLOW_LIST fromRFQ toOpposingRequest getEndpoints getConfigs (Inr excluded) wire request
     = quote ALLOW_LIST fromRFQ toOpposingRequest getEndpoints getConfigs (Inr excluded') wire request"
  by (simp add: quote_def Let_def split: sum.splits)

text \<open>
  Claim C4, as the code has it. When the endpoint directory arrives and the fetch of
  the admission configuration throws, the eligible endpoints are all the endpoints of
  the directory, and \<^verbatim>\<open>quote\<close> does not fail (the exclusion map arriving as well): it
  hands every endpoint of the directory to \<^verbatim>\<open>fetchQuote\<close>. When the fetch of the
  endpoint directory throws, \<^verbatim>\<open>quote\<close> fails with what was thrown.
\<close>

theorem quote_admission_failure_open_policy:
  "getEligibleEndpoints ALLOW_LIST (Inr endpoints) (Inl err) = Inr endpoints
   \<and> (\<exists>run. quote ALLOW_LIST fromRFQ toOpposingRequest (Inr endpoints) (Inl err)
               (Inr excluded) wire request = Inr run
           \<and> fetched run =
               map (\<lambda>e. (e, fetchQuote fromRFQ toOpposingRequest (wire e) e request)) endpoints)
   \<and> quote ALLOW_LIST fromRFQ toOpposingRequest (Inl err) getConfigs getExcluded wire request
       = Inl err"
  by (simp add: quote_def getEligibleEndpoints_def Let_def)

text \<open>
  Claim C4 as the specification words it fails for the endpoint directory: its failure
  reaches the caller of \<^verbatim>\<open>quote\<close>.
\<close>

theorem quote_directory_failure_propagates:
  "getEligibleEndpoints {} (Inl (OtherError ''directory unavailable'')) (Inr [])
     = Inl (OtherError ''directory unavailable'')
   \<and> quote {} exParse exOpposing (Inl (OtherError ''directory unavailable'')) (Inr [])
       (Inr Map.empty)
       (\<lambda>e. \<lparr>hookSettles = exAnswer 200 exQuote, oppositeSettles = exAnswer 200 exQuote,
              oppositeRejectsFirst = False\<rparr>)
       exRequest
     = Inl (OtherError ''directory unavailable'')"
  by (simp add: quote_def getEligibleEndpoints_def)

text \<open>
  Claim C1, evaluated. The exclusion set of the endpoint holds the swapper of the
  request, so the filter callback rejects the endpoint; \<^verbatim>\<open>quote\<close> still issues both
  calls to it and returns its quote.
\<close>

theorem quote_dispatches_to_excluding_endpoint:
  "\<not> notExcluded (Map.empty(''https://a.example/quote'' \<mapsto> {''0xswapper''}))
        exRequest exEndpoint
   \<and> quote {} exParse exOpposing (Inr [exEndpoint]) (Inr [])
       (Inr (Map.empty(''https://a.example/quote'' \<mapsto> {''0xswapper''})))
       (\<lambda>e. \<lparr>hookSettles = exAnswer 200 exQuote, oppositeSettles = exAnswer 200 exQuote,
              oppositeRejectsFirst = False\<rparr>)
       exRequest
     = Inr \<lparr>fetched =
              [(exEndpoint,
                \<lparr>posts = [(''https://a.example/quote'', 500), (''https://a.example/quote'', 500)],
                 responseType = Some OK, opposingLogged = True, returned = Some exQuote\<rparr>)],
            quotes = [exQuote]\<rparr>"
  by (simp add: quote_def getEligibleEndpoints_def endpointEnabled_def fillerToConfigMap_def
        notExcluded_def fetchQuote_def Promise_all2_def Let_def List.map_filter_simps
        axiosTimeout_def WEBHOOK_TIMEOUT_MS_def isNonQuote_def
        exAnswer_def exParse_def exOpposing_def exEndpoint_def exRequest_def exQuote_def)

end
